theory Spec2Isabelle
  imports Complex_Main "HOL-Library.Word"
begin

section \<open>Data model\<close>

text \<open>
  \<open>models/processing/__init__.py\<close>: the enumeration of processing model types, and
  \<open>models/validation/__init__.py\<close>: the one validation model type.
\<close>

datatype ProcessingModelType = CLASSIFICATION | SEGMENTATION

datatype ValidationModelType = COFFEE_LEAF_OCC

text \<open>Python \<open>bytes\<close>: a sequence of octets.\<close>

type_synonym bytes = "8 word list"

text \<open>
  The exceptions the modelled functions raise, each with the message the source gives
  it. \<open>KeyError\<close> carries the missing dictionary key.
\<close>

datatype error = ValueError string | KeyError int

text \<open>
  \<open>interfaces/queue/__init__.py\<close>, dataclass \<open>QueueElement\<close>. The fields read from a
  table row hold whatever the row holds, so a column that is NULL arrives as Python's
  \<open>None\<close>: those fields are options here. The fields \<open>id\<close> and \<open>image\<close> are written
  \<open>id'\<close> and \<open>image'\<close>, the plain names being constants of HOL.
\<close>

record QueueElement =
  id' :: int
  model_id :: "int option"
  report_id :: "int option"
  report_type :: ProcessingModelType
  image' :: bytes
  generate_mask :: "bool option"

section \<open>Report id of a queue row\<close>

text \<open>
  \<open>Queue.process_report_id\<close>. The source is a \<open>match\<close> on the pair with four cases,
  tried in order. The first pattern \<open>(classification_report_id, None)\<close> has a capture
  pattern in its first position, which matches any value, \<open>None\<close> included; the second
  position matches only \<open>None\<close>. The four branches are kept in the source's order.
\<close>

definition process_report_id ::
  "int option \<Rightarrow> int option \<Rightarrow> error + (int option \<times> ProcessingModelType)" where
  "process_report_id classification_report_id segmentation_report_id =
     (if segmentation_report_id = None then
        Inr (classification_report_id, CLASSIFICATION)
      else if classification_report_id = None then
        Inr (segmentation_report_id, SEGMENTATION)
      else if classification_report_id = None \<and> segmentation_report_id = None then
        Inl (ValueError ''No report ID found'')
      else
        Inl (ValueError ''Multiple report IDs found''))"

section \<open>Severity of a stress ratio\<close>

text \<open>
  \<open>Segmentation._ratio_to_severity\<close> (\<open>core/processing/segmentation.py\<close>), over the
  real numbers: the chain of comparisons as the source writes it, with the final
  \<open>return -1\<close> that follows the chain.
\<close>

definition ratio_to_severity :: "real \<Rightarrow> int" where
  "ratio_to_severity stress_ratio =
     (if stress_ratio < 0.001 then 0
      else if 0.001 \<le> stress_ratio \<and> stress_ratio \<le> 0.05 then 1
      else if 0.05 < stress_ratio \<and> stress_ratio \<le> 0.1 then 2
      else if 0.1 < stress_ratio \<and> stress_ratio \<le> 0.15 then 3
      else if stress_ratio > 0.15 then 4
      else -1)"

section \<open>The queue tables\<close>

text \<open>
  \<open>interfaces/queue/mysql.py\<close> keeps three tables. \<open>PROCESSING_QUEUE\<close> and \<open>BUFFER\<close>
  have the columns of \<open>queue_row\<close>; \<open>VALIDATION_QUEUE\<close> has one more,
  \<open>VALIDATION_MODEL_ID\<close>. A table is the list of its rows in the order they were
  inserted. The columns that the source fills with \<open>None\<close> are options.
\<close>

record queue_row =
  ID :: int
  IMAGE_ID :: int
  MODEL_ID :: int
  CLASSIFICATION_REPORT_ID :: "int option"
  SEGMENTATION_REPORT_ID :: "int option"
  IMAGE :: bytes
  GENERATE_MASK :: "bool option"

record validation_row = queue_row +
  VALIDATION_MODEL_ID :: "int option"

text \<open>
  Modelled from the spec: the table declarations are not in the source. A queue element's
  id is "assigned at insertion, unique" and "queue-local", so an \<open>INSERT\<close> that names no
  \<open>ID\<close> takes the table's next id from a counter that only grows
  (\<open>VALIDATION_QUEUE_AUTO_INCREMENT\<close>, \<open>PROCESSING_QUEUE_AUTO_INCREMENT\<close>), and a column
  that an \<open>INSERT\<close> leaves out is NULL. \<open>BUFFER\<close> rows are inserted with the id they had
  in the validation queue, so that table has no counter.
\<close>

record MySQLQueue =
  VALIDATION_QUEUE :: "validation_row list"
  VALIDATION_QUEUE_AUTO_INCREMENT :: int
  PROCESSING_QUEUE :: "queue_row list"
  PROCESSING_QUEUE_AUTO_INCREMENT :: int
  BUFFER :: "queue_row list"

text \<open>\<open>SELECT ... ORDER BY ID ASC LIMIT 1\<close>: a row of least \<open>ID\<close>, if there is a row.\<close>

fun order_by_id_limit_1 :: "('a queue_row_scheme) list \<Rightarrow> ('a queue_row_scheme) option" where
  "order_by_id_limit_1 [] = None"
| "order_by_id_limit_1 (r # rs) =
     (case order_by_id_limit_1 rs of
        None \<Rightarrow> Some r
      | Some m \<Rightarrow> if ID r \<le> ID m then Some r else Some m)"

text \<open>\<open>... WHERE ID = %s\<close> and \<open>DELETE FROM ... WHERE ID = %s\<close>.\<close>

definition where_id :: "int \<Rightarrow> ('a queue_row_scheme) list \<Rightarrow> ('a queue_row_scheme) list" where
  "where_id i rows = filter (\<lambda>r. ID r = i) rows"

definition delete_where_id :: "int \<Rightarrow> ('a queue_row_scheme) list \<Rightarrow> ('a queue_row_scheme) list" where
  "delete_where_id i rows = filter (\<lambda>r. ID r \<noteq> i) rows"

section \<open>Queue operations\<close>

text \<open>
  \<open>MySQLQueue._enqueue_to_processing_queue\<close>. The statement the source executes is
  \<open>INSERT INTO VALIDATION_QUEUE (IMAGE_ID, MODEL_ID, CLASSIFICATION_REPORT_ID,
  SEGMENTATION_REPORT_ID, IMAGE, GENERATE_MASK)\<close>: the row goes to the table
  \<open>VALIDATION_QUEUE\<close>, with no \<open>VALIDATION_MODEL_ID\<close>. The \<open>case _\<close> branch of the
  \<open>match\<close> on the model type has no value of the enumeration left to match.
\<close>

definition MySQLQueue_enqueue_to_processing_queue ::
  "MySQLQueue \<Rightarrow> int \<Rightarrow> int \<Rightarrow> ProcessingModelType \<Rightarrow> int \<Rightarrow> bytes \<Rightarrow> bool option \<Rightarrow> MySQLQueue" where
  "MySQLQueue_enqueue_to_processing_queue q image_id model_id' model_type report_id' img generate_mask' =
     (let (classification_report_id, segmentation_report_id) =
            (case model_type of
               CLASSIFICATION \<Rightarrow> (Some report_id', None)
             | SEGMENTATION \<Rightarrow> (None, Some report_id'))
      in q\<lparr>VALIDATION_QUEUE := VALIDATION_QUEUE q @
              [\<lparr>ID = VALIDATION_QUEUE_AUTO_INCREMENT q,
                IMAGE_ID = image_id,
                MODEL_ID = model_id',
                CLASSIFICATION_REPORT_ID = classification_report_id,
                SEGMENTATION_REPORT_ID = segmentation_report_id,
                IMAGE = img,
                GENERATE_MASK = generate_mask',
                VALIDATION_MODEL_ID = None\<rparr>],
            VALIDATION_QUEUE_AUTO_INCREMENT := VALIDATION_QUEUE_AUTO_INCREMENT q + 1\<rparr>)"

text \<open>
  \<open>Queue.enqueue_to_processing_queue\<close>, the template method: the check of
  \<open>generate_mask\<close>, then the call of the method above. The result pairs what the call
  returns or raises with the tables as the call leaves them.
\<close>

definition enqueue_to_processing_queue ::
  "MySQLQueue \<Rightarrow> int \<Rightarrow> int \<Rightarrow> ProcessingModelType \<Rightarrow> int \<Rightarrow> bytes \<Rightarrow> bool option
     \<Rightarrow> (error + unit) \<times> MySQLQueue" where
  "enqueue_to_processing_queue q image_id model_id' model_type report_id' img generate_mask' =
     (if model_type = SEGMENTATION \<and> generate_mask' = None then
        (Inl (ValueError ''generate_mask must be provided for segmentation models''), q)
      else
        (Inr (), MySQLQueue_enqueue_to_processing_queue q image_id model_id' model_type
                   report_id' img generate_mask'))"

text \<open>\<open>MySQLQueue._enqueue_to_validation_queue\<close>.\<close>

definition MySQLQueue_enqueue_to_validation_queue ::
  "MySQLQueue \<Rightarrow> int \<Rightarrow> int \<Rightarrow> int \<Rightarrow> ProcessingModelType \<Rightarrow> int \<Rightarrow> bytes \<Rightarrow> bool option
     \<Rightarrow> MySQLQueue" where
  "MySQLQueue_enqueue_to_validation_queue q image_id validation_model_id model_id' model_type
       report_id' img generate_mask' =
     (let (classification_report_id, segmentation_report_id) =
            (case model_type of
               CLASSIFICATION \<Rightarrow> (Some report_id', None)
             | SEGMENTATION \<Rightarrow> (None, Some report_id'))
      in q\<lparr>VALIDATION_QUEUE := VALIDATION_QUEUE q @
              [\<lparr>ID = VALIDATION_QUEUE_AUTO_INCREMENT q,
                IMAGE_ID = image_id,
                MODEL_ID = model_id',
                CLASSIFICATION_REPORT_ID = classification_report_id,
                SEGMENTATION_REPORT_ID = segmentation_report_id,
                IMAGE = img,
                GENERATE_MASK = generate_mask',
                VALIDATION_MODEL_ID = Some validation_model_id\<rparr>],
            VALIDATION_QUEUE_AUTO_INCREMENT := VALIDATION_QUEUE_AUTO_INCREMENT q + 1\<rparr>)"

text \<open>\<open>Queue.enqueue_to_validation_queue\<close>, the template method.\<close>

definition enqueue_to_validation_queue ::
  "MySQLQueue \<Rightarrow> int \<Rightarrow> int \<Rightarrow> int \<Rightarrow> ProcessingModelType \<Rightarrow> int \<Rightarrow> bytes \<Rightarrow> bool option
     \<Rightarrow> (error + unit) \<times> MySQLQueue" where
  "enqueue_to_validation_queue q image_id validation_model_id processing_model_id
       processing_model_type report_id' img generate_mask' =
     (if processing_model_type = SEGMENTATION \<and> generate_mask' = None then
        (Inl (ValueError ''generate_mask must be provided for segmentation models''), q)
      else
        (Inr (), MySQLQueue_enqueue_to_validation_queue q image_id validation_model_id
                   processing_model_id processing_model_type report_id' img generate_mask'))"

text \<open>
  \<open>MySQLQueue.dequeue_from_processing_queue\<close>: select the row of least id; if there is
  none, return \<open>None\<close>; otherwise delete the rows with that id, commit, and build the
  element. \<open>process_report_id\<close> is called after the commit, so when it raises the row
  is already deleted.
\<close>

definition dequeue_from_processing_queue ::
  "MySQLQueue \<Rightarrow> (error + QueueElement option) \<times> MySQLQueue" where
  "dequeue_from_processing_queue q =
     (case order_by_id_limit_1 (PROCESSING_QUEUE q) of
        None \<Rightarrow> (Inr None, q)
      | Some row \<Rightarrow>
          (let q' = q\<lparr>PROCESSING_QUEUE := delete_where_id (ID row) (PROCESSING_QUEUE q)\<rparr>
           in case process_report_id (CLASSIFICATION_REPORT_ID row) (SEGMENTATION_REPORT_ID row) of
                Inl e \<Rightarrow> (Inl e, q')
              | Inr (report_id', report_type') \<Rightarrow>
                  (Inr (Some \<lparr>id' = ID row,
                              model_id = Some (MODEL_ID row),
                              report_id = report_id',
                              report_type = report_type',
                              image' = IMAGE row,
                              generate_mask = GENERATE_MASK row\<rparr>), q')))"

text \<open>\<open>MySQLQueue.processing_queue_has_elements\<close>: \<open>SELECT COUNT(*)\<close> is positive.\<close>

definition processing_queue_has_elements :: "MySQLQueue \<Rightarrow> bool" where
  "processing_queue_has_elements q = (int (length (PROCESSING_QUEUE q)) > 0)"

text \<open>
  The columns that \<open>INSERT INTO BUFFER (ID, IMAGE_ID, MODEL_ID, CLASSIFICATION_REPORT_ID,
  SEGMENTATION_REPORT_ID, IMAGE, GENERATE_MASK) SELECT ...  FROM VALIDATION_QUEUE\<close>
  copies from a validation row.
\<close>

definition buffer_row_of :: "validation_row \<Rightarrow> queue_row" where
  "buffer_row_of r =
     \<lparr>ID = ID r,
      IMAGE_ID = IMAGE_ID r,
      MODEL_ID = MODEL_ID r,
      CLASSIFICATION_REPORT_ID = CLASSIFICATION_REPORT_ID r,
      SEGMENTATION_REPORT_ID = SEGMENTATION_REPORT_ID r,
      IMAGE = IMAGE r,
      GENERATE_MASK = GENERATE_MASK r\<rparr>"

text \<open>
  \<open>MySQLQueue.dequeue_from_validation_queue\<close>: select the row of least id; if there is
  none, return \<open>None\<close>; otherwise copy the rows with that id into \<open>BUFFER\<close>, delete them
  from \<open>VALIDATION_QUEUE\<close>, commit once, and build the element. The element is built
  from five arguments, so its \<open>generate_mask\<close> is the dataclass default \<open>False\<close>, and
  its \<open>model_id\<close> is the row's \<open>VALIDATION_MODEL_ID\<close>.
\<close>

definition dequeue_from_validation_queue ::
  "MySQLQueue \<Rightarrow> (error + QueueElement option) \<times> MySQLQueue" where
  "dequeue_from_validation_queue q =
     (case order_by_id_limit_1 (VALIDATION_QUEUE q) of
        None \<Rightarrow> (Inr None, q)
      | Some row \<Rightarrow>
          (let q' = q\<lparr>BUFFER := BUFFER q @ map buffer_row_of (where_id (ID row) (VALIDATION_QUEUE q)),
                      VALIDATION_QUEUE := delete_where_id (ID row) (VALIDATION_QUEUE q)\<rparr>
           in case process_report_id (CLASSIFICATION_REPORT_ID row) (SEGMENTATION_REPORT_ID row) of
                Inl e \<Rightarrow> (Inl e, q')
              | Inr (report_id', report_type') \<Rightarrow>
                  (Inr (Some \<lparr>id' = ID row,
                              model_id = VALIDATION_MODEL_ID row,
                              report_id = report_id',
                              report_type = report_type',
                              image' = IMAGE row,
                              generate_mask = Some False\<rparr>), q')))"

text \<open>\<open>MySQLQueue.validation_queue_has_elements\<close>.\<close>

definition validation_queue_has_elements :: "MySQLQueue \<Rightarrow> bool" where
  "validation_queue_has_elements q = (int (length (VALIDATION_QUEUE q)) > 0)"

text \<open>
  \<open>INSERT INTO PROCESSING_QUEUE (IMAGE_ID, MODEL_ID, CLASSIFICATION_REPORT_ID,
  SEGMENTATION_REPORT_ID, IMAGE, GENERATE_MASK) SELECT ... FROM BUFFER\<close>: each selected
  row is appended with the six columns copied and the next id of the processing queue.
\<close>

fun insert_into_processing_queue :: "queue_row list \<Rightarrow> MySQLQueue \<Rightarrow> MySQLQueue" where
  "insert_into_processing_queue [] q = q"
| "insert_into_processing_queue (r # rs) q =
     insert_into_processing_queue rs
       (q\<lparr>PROCESSING_QUEUE := PROCESSING_QUEUE q @
             [\<lparr>ID = PROCESSING_QUEUE_AUTO_INCREMENT q,
               IMAGE_ID = IMAGE_ID r,
               MODEL_ID = MODEL_ID r,
               CLASSIFICATION_REPORT_ID = CLASSIFICATION_REPORT_ID r,
               SEGMENTATION_REPORT_ID = SEGMENTATION_REPORT_ID r,
               IMAGE = IMAGE r,
               GENERATE_MASK = GENERATE_MASK r\<rparr>],
           PROCESSING_QUEUE_AUTO_INCREMENT := PROCESSING_QUEUE_AUTO_INCREMENT q + 1\<rparr>)"

text \<open>
  \<open>MySQLQueue.update_buffer\<close>: when the validation passed, copy the buffer rows with
  the element's id into the processing queue; in both cases delete them from the
  buffer; one commit at the end. The method raises nothing and returns nothing.
\<close>

definition update_buffer :: "MySQLQueue \<Rightarrow> int \<Rightarrow> bool \<Rightarrow> MySQLQueue" where
  "update_buffer q element_id validation_result =
     (let q' = (if validation_result
                then insert_into_processing_queue (where_id element_id (BUFFER q)) q
                else q)
      in q'\<lparr>BUFFER := delete_where_id element_id (BUFFER q')\<rparr>)"

section \<open>Repeated dequeues and the invariant of the tables\<close>

text \<open>
  \<open>n\<close> successive calls of \<open>dequeue_from_processing_queue\<close>, as a worker makes them:
  the elements returned, in the order of the calls, and the tables afterwards. The
  sequence stops at the first call that returns \<open>None\<close> or raises.
\<close>

fun repeat_dequeue_from_processing_queue ::
  "nat \<Rightarrow> MySQLQueue \<Rightarrow> QueueElement list \<times> MySQLQueue" where
  "repeat_dequeue_from_processing_queue 0 q = ([], q)"
| "repeat_dequeue_from_processing_queue (Suc n) q =
     (case dequeue_from_processing_queue q of
        (Inr (Some e), q') \<Rightarrow>
          (case repeat_dequeue_from_processing_queue n q' of (es, q'') \<Rightarrow> (e # es, q''))
      | (Inr None, q') \<Rightarrow> ([], q')
      | (Inl err, q') \<Rightarrow> ([], q'))"

text \<open>
  What the operations above keep true of the tables, starting from empty ones: within
  each queue the ids grow with the insertion order and lie below the queue's counter;
  the buffer holds at most one row per id, each id taken from the validation queue
  earlier and no longer present there; and no row names both a classification and a
  segmentation report.
\<close>

definition queue_invariant :: "MySQLQueue \<Rightarrow> bool" where
  "queue_invariant q \<longleftrightarrow>
     sorted_wrt (<) (map ID (VALIDATION_QUEUE q))
     \<and> (\<forall>r\<in>set (VALIDATION_QUEUE q). ID r < VALIDATION_QUEUE_AUTO_INCREMENT q)
     \<and> sorted_wrt (<) (map ID (PROCESSING_QUEUE q))
     \<and> (\<forall>r\<in>set (PROCESSING_QUEUE q). ID r < PROCESSING_QUEUE_AUTO_INCREMENT q)
     \<and> distinct (map ID (BUFFER q))
     \<and> (\<forall>r\<in>set (BUFFER q). ID r < VALIDATION_QUEUE_AUTO_INCREMENT q)
     \<and> (\<forall>r\<in>set (BUFFER q). \<forall>v\<in>set (VALIDATION_QUEUE q). ID r \<noteq> ID v)
     \<and> (\<forall>r\<in>set (VALIDATION_QUEUE q).
           CLASSIFICATION_REPORT_ID r = None \<or> SEGMENTATION_REPORT_ID r = None)
     \<and> (\<forall>r\<in>set (PROCESSING_QUEUE q).
           CLASSIFICATION_REPORT_ID r = None \<or> SEGMENTATION_REPORT_ID r = None)
     \<and> (\<forall>r\<in>set (BUFFER q).
           CLASSIFICATION_REPORT_ID r = None \<or> SEGMENTATION_REPORT_ID r = None)"

section \<open>Ingestion\<close>

text \<open>
  \<open>models/__init__.py\<close>: the model categories and the dataclass \<open>Model\<close>. The field
  \<open>type\<close> holds a value of either enumeration, and \<open>module\<close> is written \<open>module'\<close>,
  the plain name being a constant of HOL.
\<close>

datatype ModelCategory = VALIDATION | PROCESSING

datatype ModelType = ValidationType ValidationModelType | ProcessingType ProcessingModelType

record Model =
  category :: ModelCategory
  type :: ModelType
  subtype :: string
  module' :: string
  class_name :: string

text \<open>Python's \<open>str\<close> of an enumeration member, as the f-string of the error message prints it.\<close>

fun str_ProcessingModelType :: "ProcessingModelType \<Rightarrow> string" where
  "str_ProcessingModelType CLASSIFICATION = ''ProcessingModelType.CLASSIFICATION''"
| "str_ProcessingModelType SEGMENTATION = ''ProcessingModelType.SEGMENTATION''"

fun str_ModelType :: "ModelType \<Rightarrow> string" where
  "str_ModelType (ProcessingType t) = str_ProcessingModelType t"
| "str_ModelType (ValidationType COFFEE_LEAF_OCC) = ''ValidationModelType.COFFEE_LEAF_OCC''"

text \<open>
  The tables that \<open>interfaces/database/mysql.py\<close> and \<open>interfaces/storage/mysql.py\<close>
  write during ingestion, each a list of rows with the columns the \<open>INSERT\<close> names after
  the id: \<open>IMAGE (ID, USER_ID, FILENAME)\<close>, \<open>CLASSIFICATION_REPORT (ID, USER_ID, IMAGE_ID,
  MODEL_ID)\<close> and \<open>SEGMENTATION_REPORT (ID, USER_ID, IMAGE_ID, MODEL_ID, HAS_MASK)\<close> of the
  database, \<open>IMAGE (ID, DATA)\<close> of the storage. The ids of the database tables come from
  \<open>cursor.lastrowid\<close>, a counter per table as for the queues. \<open>enabled_models\<close> is the
  dictionary that the database object loads when it is created.
\<close>

record MySQLDatabase =
  enabled_models :: "int \<rightharpoonup> Model"
  database_IMAGE :: "(int \<times> int \<times> string) list"
  database_IMAGE_AUTO_INCREMENT :: int
  CLASSIFICATION_REPORT :: "(int \<times> int \<times> int \<times> int) list"
  CLASSIFICATION_REPORT_AUTO_INCREMENT :: int
  SEGMENTATION_REPORT :: "(int \<times> int \<times> int \<times> int \<times> bool) list"
  SEGMENTATION_REPORT_AUTO_INCREMENT :: int

record MySQLStorage =
  storage_IMAGE :: "(int \<times> bytes) list"

text \<open>\<open>MySQLDatabase.insert_image\<close>: insert, commit, return the new id.\<close>

definition insert_image :: "MySQLDatabase \<Rightarrow> int \<Rightarrow> string \<Rightarrow> int \<times> MySQLDatabase" where
  "insert_image db user_id filename =
     (database_IMAGE_AUTO_INCREMENT db,
      db\<lparr>database_IMAGE := database_IMAGE db @
             [(database_IMAGE_AUTO_INCREMENT db, user_id, filename)],
         database_IMAGE_AUTO_INCREMENT := database_IMAGE_AUTO_INCREMENT db + 1\<rparr>)"

text \<open>\<open>MySQLDatabase.insert_classification_report\<close>.\<close>

definition insert_classification_report ::
  "MySQLDatabase \<Rightarrow> int \<Rightarrow> int \<Rightarrow> int \<Rightarrow> int \<times> MySQLDatabase" where
  "insert_classification_report db user_id image_id model_id' =
     (CLASSIFICATION_REPORT_AUTO_INCREMENT db,
      db\<lparr>CLASSIFICATION_REPORT := CLASSIFICATION_REPORT db @
             [(CLASSIFICATION_REPORT_AUTO_INCREMENT db, user_id, image_id, model_id')],
         CLASSIFICATION_REPORT_AUTO_INCREMENT := CLASSIFICATION_REPORT_AUTO_INCREMENT db + 1\<rparr>)"

text \<open>\<open>MySQLDatabase.insert_segmentation_report\<close>.\<close>

definition insert_segmentation_report ::
  "MySQLDatabase \<Rightarrow> int \<Rightarrow> int \<Rightarrow> int \<Rightarrow> bool \<Rightarrow> int \<times> MySQLDatabase" where
  "insert_segmentation_report db user_id image_id model_id' has_mask =
     (SEGMENTATION_REPORT_AUTO_INCREMENT db,
      db\<lparr>SEGMENTATION_REPORT := SEGMENTATION_REPORT db @
             [(SEGMENTATION_REPORT_AUTO_INCREMENT db, user_id, image_id, model_id', has_mask)],
         SEGMENTATION_REPORT_AUTO_INCREMENT := SEGMENTATION_REPORT_AUTO_INCREMENT db + 1\<rparr>)"

text \<open>\<open>MySQLStorage.store_image\<close>.\<close>

definition store_image :: "MySQLStorage \<Rightarrow> bytes \<Rightarrow> int \<Rightarrow> MySQLStorage" where
  "store_image st img image_id = st\<lparr>storage_IMAGE := storage_IMAGE st @ [(image_id, img)]\<rparr>"

text \<open>The three interfaces that \<open>enqueue_report\<close> receives, each with its tables.\<close>

record interfaces =
  database :: MySQLDatabase
  queue :: MySQLQueue
  storage :: MySQLStorage

text \<open>
  \<open>enqueue_report\<close> (\<open>enqueue_report.py\<close>), statement by statement: the lookup of the
  model in \<open>enabled_models\<close> (a \<open>KeyError\<close> for an unknown id); the comparison of the
  declared type with the registered one; \<open>insert_image\<close> and \<open>store_image\<close>; the
  \<open>match\<close> on the type, where the \<open>CLASSIFICATION\<close> case checks \<open>generate_mask\<close> and
  inserts the report; the enqueue to the processing or the validation queue; the return
  of the report id. The result pairs what the call returns or raises with the tables at
  that moment. \<open>validation_model_id\<close> is \<open>None\<close> or an integer, so the final \<open>TypeError\<close>
  branch has no value left, as the \<open>case _\<close> of the \<open>match\<close> has none.
\<close>

definition enqueue_report ::
  "interfaces \<Rightarrow> int \<Rightarrow> string \<Rightarrow> bytes \<Rightarrow> int \<Rightarrow> ProcessingModelType \<Rightarrow> bool \<Rightarrow> int option
     \<Rightarrow> (error + int) \<times> interfaces" where
  "enqueue_report w user_id filename img processing_model_id processing_model_type
       generate_mask' validation_model_id =
     (case enabled_models (database w) processing_model_id of
        None \<Rightarrow> (Inl (KeyError processing_model_id), w)
      | Some model \<Rightarrow>
          if ProcessingType processing_model_type \<noteq> type model then
            (Inl (ValueError (''Model type mismatch: ''
                     @ str_ProcessingModelType processing_model_type @ '' expected, ''
                     @ str_ModelType (type model) @ '' found'')), w)
          else
            (case insert_image (database w) user_id filename of
               (image_id, database1) \<Rightarrow>
                 (let w1 = w\<lparr>database := database1,
                              storage := store_image (storage w) img image_id\<rparr>
                  in case (case processing_model_type of
                             CLASSIFICATION \<Rightarrow>
                               if generate_mask' then
                                 Inl (ValueError ''Classification models do not generate masks'')
                               else
                                 Inr (insert_classification_report database1 user_id image_id
                                        processing_model_id)
                           | SEGMENTATION \<Rightarrow>
                               Inr (insert_segmentation_report database1 user_id image_id
                                      processing_model_id generate_mask')) of
                       Inl e \<Rightarrow> (Inl e, w1)
                     | Inr (report_id', database2) \<Rightarrow>
                         (let w2 = w1\<lparr>database := database2\<rparr>
                          in case (case validation_model_id of
                                     None \<Rightarrow>
                                       enqueue_to_processing_queue (queue w2) image_id
                                         processing_model_id processing_model_type report_id' img
                                         (Some generate_mask')
                                   | Some v \<Rightarrow>
                                       enqueue_to_validation_queue (queue w2) image_id v
                                         processing_model_id processing_model_type report_id' img
                                         (Some generate_mask')) of
                               (Inl e, queue1) \<Rightarrow> (Inl e, w2\<lparr>queue := queue1\<rparr>)
                             | (Inr u, queue1) \<Rightarrow> (Inr report_id', w2\<lparr>queue := queue1\<rparr>)))))"

section \<open>Properties\<close>

text \<open>
  Claim C9. Whenever the segmentation report id is \<open>None\<close>, \<open>process_report_id\<close>
  returns the classification report id unchanged with type \<open>CLASSIFICATION\<close>; for the
  pair \<open>(None, None)\<close> that is report id \<open>None\<close> with type \<open>CLASSIFICATION\<close>, and no
  input at all makes the function raise "No report ID found".
\<close>

theorem process_report_id_none_is_classification:
  "process_report_id c None = Inr (c, CLASSIFICATION)
   \<and> process_report_id None None = Inr (None, CLASSIFICATION)
   \<and> process_report_id c s \<noteq> Inl (ValueError ''No report ID found'')"
  by (simp add: process_report_id_def)

text \<open>
  Claim C4. On every real stress ratio \<open>ratio_to_severity\<close> is the five-bucket step
  function: below 0.001 it is 0, on [0.001, 0.05] it is 1, on (0.05, 0.1] it is 2,
  on (0.1, 0.15] it is 3, above 0.15 it is 4. The boundary values 0.001, 0.05, 0.1 and
  0.15 give 1, 1, 2 and 3, and the fall-through value -1 is never returned.
\<close>

theorem ratio_to_severity_buckets:
  "(r < 0.001 \<longrightarrow> ratio_to_severity r = 0)
   \<and> (0.001 \<le> r \<and> r \<le> 0.05 \<longrightarrow> ratio_to_severity r = 1)
   \<and> (0.05 < r \<and> r \<le> 0.1 \<longrightarrow> ratio_to_severity r = 2)
   \<and> (0.1 < r \<and> r \<le> 0.15 \<longrightarrow> ratio_to_severity r = 3)
   \<and> (0.15 < r \<longrightarrow> ratio_to_severity r = 4)
   \<and> ratio_to_severity 0.001 = 1
   \<and> ratio_to_severity 0.05 = 1
   \<and> ratio_to_severity 0.1 = 2
   \<and> ratio_to_severity 0.15 = 3
   \<and> ratio_to_severity r \<noteq> -1"
  by (simp add: ratio_to_severity_def)

theorem ratio_to_severity_buckets_witness:
  "ratio_to_severity 0 = 0
   \<and> ratio_to_severity 0.03 = 1
   \<and> ratio_to_severity 0.08 = 2
   \<and> ratio_to_severity 0.12 = 3
   \<and> ratio_to_severity 0.2 = 4"
  using ratio_to_severity_buckets [of 0] ratio_to_severity_buckets [of "0.03"]
    ratio_to_severity_buckets [of "0.08"] ratio_to_severity_buckets [of "0.12"]
    ratio_to_severity_buckets [of "0.2"]
  by simp

subsection \<open>Rows selected and deleted by id\<close>

lemma order_by_id_limit_1_None: "order_by_id_limit_1 rs = None \<longleftrightarrow> rs = []"
  by (induction rs) (auto split: option.splits)

lemma order_by_id_limit_1_Some:
  "order_by_id_limit_1 rs = Some m \<Longrightarrow> m \<in> set rs \<and> (\<forall>r\<in>set rs. ID m \<le> ID r)"
proof (induction rs arbitrary: m)
  case Nil
  then show ?case by simp
next
  case (Cons r rs)
  show ?case
  proof (cases "order_by_id_limit_1 rs")
    case None
    then have "rs = []" by (simp add: order_by_id_limit_1_None)
    with Cons.prems show ?thesis by simp
  next
    case (Some m')
    from Cons.IH [OF Some] have m': "m' \<in> set rs" "\<forall>x\<in>set rs. ID m' \<le> ID x" by simp_all
    from Cons.prems Some have "m = (if ID r \<le> ID m' then r else m')" by (simp split: if_splits)
    with m' show ?thesis by (cases "ID r \<le> ID m'") force+
  qed
qed

lemma order_by_id_limit_1_sorted:
  "sorted_wrt (<) (map ID (r # rs)) \<Longrightarrow> order_by_id_limit_1 (r # rs) = Some r"
proof (cases "order_by_id_limit_1 rs")
  case None
  then show ?thesis by simp
next
  case (Some m)
  assume s: "sorted_wrt (<) (map ID (r # rs))"
  from order_by_id_limit_1_Some [OF Some] have "m \<in> set rs" by simp
  with s have "ID r < ID m" by auto
  with Some show ?thesis by simp
qed

lemma delete_where_id_sorted:
  "sorted_wrt (<) (map ID (r # rs)) \<Longrightarrow> delete_where_id (ID r) (r # rs) = rs"
  by (auto simp: delete_where_id_def filter_id_conv)

lemma where_id_absent: "i \<notin> ID ` set rows \<Longrightarrow> where_id i rows = []"
  by (auto simp: where_id_def filter_empty_conv)

lemma delete_where_id_absent: "i \<notin> ID ` set rows \<Longrightarrow> delete_where_id i rows = rows"
  by (auto simp: delete_where_id_def filter_id_conv)

lemma delete_where_id_gone: "i \<notin> ID ` set (delete_where_id i rows)"
  by (auto simp: delete_where_id_def)

lemma where_id_distinct:
  "distinct (map ID rows) \<Longrightarrow> b \<in> set rows \<Longrightarrow> where_id (ID b) rows = [b]"
proof (induction rows)
  case Nil
  then show ?case by simp
next
  case (Cons r rows)
  show ?case
  proof (cases "r = b")
    case True
    with Cons.prems have "ID b \<notin> ID ` set rows" by auto
    then have "where_id (ID b) rows = []" by (rule where_id_absent)
    with True show ?thesis by (simp add: where_id_def)
  next
    case False
    with Cons.prems have b: "b \<in> set rows" and "ID r \<notin> ID ` set rows" by auto
    then have "ID r \<noteq> ID b" by auto
    with Cons.IH b Cons.prems show ?thesis by (simp add: where_id_def)
  qed
qed

lemma insert_into_processing_queue_other:
  "VALIDATION_QUEUE (insert_into_processing_queue rs q) = VALIDATION_QUEUE q
   \<and> VALIDATION_QUEUE_AUTO_INCREMENT (insert_into_processing_queue rs q) = VALIDATION_QUEUE_AUTO_INCREMENT q
   \<and> BUFFER (insert_into_processing_queue rs q) = BUFFER q"
  by (induction rs arbitrary: q) auto

subsection \<open>Effect of the queue operations\<close>

lemma update_buffer_absent:
  "i \<notin> ID ` set (BUFFER q) \<Longrightarrow> update_buffer q i p = q"
  by (simp add: update_buffer_def where_id_absent delete_where_id_absent)

lemma update_buffer_removes: "i \<notin> ID ` set (BUFFER (update_buffer q i p))"
  by (simp add: update_buffer_def Let_def insert_into_processing_queue_other delete_where_id_gone)

lemma dequeue_validation_empty:
  "VALIDATION_QUEUE q = [] \<Longrightarrow> dequeue_from_validation_queue q = (Inr None, q)"
  by (simp add: dequeue_from_validation_queue_def)

lemma dequeue_validation_Some:
  assumes "dequeue_from_validation_queue q = (Inr (Some e), q')"
  obtains row where "order_by_id_limit_1 (VALIDATION_QUEUE q) = Some row"
    and "id' e = ID row" and "model_id e = VALIDATION_MODEL_ID row"
    and "generate_mask e = Some False" and "image' e = IMAGE row"
    and "q' = q\<lparr>BUFFER := BUFFER q @ map buffer_row_of (where_id (ID row) (VALIDATION_QUEUE q)),
                VALIDATION_QUEUE := delete_where_id (ID row) (VALIDATION_QUEUE q)\<rparr>"
  using assms
  by (auto simp: dequeue_from_validation_queue_def Let_def
      split: option.splits sum.splits prod.splits)

lemma dequeue_processing_empty:
  "PROCESSING_QUEUE q = [] \<Longrightarrow> dequeue_from_processing_queue q = (Inr None, q)"
  by (simp add: dequeue_from_processing_queue_def)

lemma dequeue_processing_returns_head:
  assumes "sorted_wrt (<) (map ID (PROCESSING_QUEUE q))" and "PROCESSING_QUEUE q = r # rs"
    and "CLASSIFICATION_REPORT_ID r = None \<or> SEGMENTATION_REPORT_ID r = None"
  shows "dequeue_from_processing_queue q =
     (Inr (Some \<lparr>id' = ID r, model_id = Some (MODEL_ID r),
                 report_id = (if SEGMENTATION_REPORT_ID r = None
                              then CLASSIFICATION_REPORT_ID r else SEGMENTATION_REPORT_ID r),
                 report_type = (if SEGMENTATION_REPORT_ID r = None
                                then CLASSIFICATION else SEGMENTATION),
                 image' = IMAGE r, generate_mask = GENERATE_MASK r\<rparr>),
      q\<lparr>PROCESSING_QUEUE := rs\<rparr>)"
proof -
  from assms have s: "sorted_wrt (<) (map ID (r # rs))" by simp
  show ?thesis
    using assms(2,3) order_by_id_limit_1_sorted [OF s] delete_where_id_sorted [OF s]
    by (auto simp: dequeue_from_processing_queue_def Let_def process_report_id_def)
qed

lemma update_buffer_present:
  assumes "distinct (map ID (BUFFER q))" and "b \<in> set (BUFFER q)"
  shows "update_buffer q (ID b) True =
           q\<lparr>PROCESSING_QUEUE := PROCESSING_QUEUE q @
                [\<lparr>ID = PROCESSING_QUEUE_AUTO_INCREMENT q,
                  IMAGE_ID = IMAGE_ID b,
                  MODEL_ID = MODEL_ID b,
                  CLASSIFICATION_REPORT_ID = CLASSIFICATION_REPORT_ID b,
                  SEGMENTATION_REPORT_ID = SEGMENTATION_REPORT_ID b,
                  IMAGE = IMAGE b,
                  GENERATE_MASK = GENERATE_MASK b\<rparr>],
              PROCESSING_QUEUE_AUTO_INCREMENT := PROCESSING_QUEUE_AUTO_INCREMENT q + 1,
              BUFFER := delete_where_id (ID b) (BUFFER q)\<rparr>"
    and "update_buffer q (ID b) False = q\<lparr>BUFFER := delete_where_id (ID b) (BUFFER q)\<rparr>"
  using assms by (simp_all add: update_buffer_def where_id_distinct)

lemma repeat_dequeue_fifo:
  "sorted_wrt (<) (map ID (PROCESSING_QUEUE q)) \<Longrightarrow>
   \<forall>r\<in>set (PROCESSING_QUEUE q). CLASSIFICATION_REPORT_ID r = None \<or> SEGMENTATION_REPORT_ID r = None \<Longrightarrow>
   map id' (fst (repeat_dequeue_from_processing_queue n q)) = take n (map ID (PROCESSING_QUEUE q))
   \<and> map image' (fst (repeat_dequeue_from_processing_queue n q)) = take n (map IMAGE (PROCESSING_QUEUE q))
   \<and> snd (repeat_dequeue_from_processing_queue n q) = q\<lparr>PROCESSING_QUEUE := drop n (PROCESSING_QUEUE q)\<rparr>"
proof (induction n arbitrary: q)
  case 0
  then show ?case by simp
next
  case (Suc n)
  show ?case
  proof (cases "PROCESSING_QUEUE q")
    case Nil
    then show ?thesis by (simp add: dequeue_processing_empty)
  next
    case (Cons r rs)
    let ?q' = "q\<lparr>PROCESSING_QUEUE := rs\<rparr>"
    from Suc.prems(2) Cons have wf: "CLASSIFICATION_REPORT_ID r = None \<or> SEGMENTATION_REPORT_ID r = None"
      by simp
    note d = dequeue_processing_returns_head [OF Suc.prems(1) Cons wf]
    have s': "sorted_wrt (<) (map ID (PROCESSING_QUEUE ?q'))" using Suc.prems(1) Cons by simp
    have w': "\<forall>r\<in>set (PROCESSING_QUEUE ?q'). CLASSIFICATION_REPORT_ID r = None \<or> SEGMENTATION_REPORT_ID r = None"
      using Suc.prems(2) Cons by simp
    obtain es q'' where rep: "repeat_dequeue_from_processing_queue n ?q' = (es, q'')"
      by (cases "repeat_dequeue_from_processing_queue n ?q'")
    have step: "repeat_dequeue_from_processing_queue (Suc n) q = (
        \<lparr>id' = ID r, model_id = Some (MODEL_ID r),
                 report_id = (if SEGMENTATION_REPORT_ID r = None
                              then CLASSIFICATION_REPORT_ID r else SEGMENTATION_REPORT_ID r),
                 report_type = (if SEGMENTATION_REPORT_ID r = None
                                then CLASSIFICATION else SEGMENTATION),
                 image' = IMAGE r, generate_mask = GENERATE_MASK r\<rparr> # es, q'')"
      using d rep by simp
    from Suc.IH [OF s' w'] rep have "map id' es = take n (map ID rs)"
      and "map image' es = take n (map IMAGE rs)"
      and "q'' = q\<lparr>PROCESSING_QUEUE := drop n rs\<rparr>" by simp_all
    with step Cons show ?thesis by simp
  qed
qed

subsection \<open>The invariant is kept\<close>

lemma sorted_wrt_filter_ID:
  "sorted_wrt (<) (map ID rows) \<Longrightarrow> sorted_wrt (<) (map ID (filter P rows))"
  by (induction rows) auto

lemma distinct_filter_ID:
  "distinct (map ID rows) \<Longrightarrow> distinct (map ID (filter P rows))"
  by (induction rows) auto

lemma queue_invariant_empty:
  "queue_invariant \<lparr>VALIDATION_QUEUE = [], VALIDATION_QUEUE_AUTO_INCREMENT = 1,
       PROCESSING_QUEUE = [], PROCESSING_QUEUE_AUTO_INCREMENT = 1, BUFFER = []\<rparr>"
  by (simp add: queue_invariant_def)

lemma queue_invariant_MySQLQueue_enqueue_to_processing_queue:
  assumes "queue_invariant q"
  shows "queue_invariant (MySQLQueue_enqueue_to_processing_queue q image_id m t r img gm)"
  using assms
  by (cases t) (auto simp: queue_invariant_def MySQLQueue_enqueue_to_processing_queue_def
      sorted_wrt_append)

lemma queue_invariant_MySQLQueue_enqueue_to_validation_queue:
  assumes "queue_invariant q"
  shows "queue_invariant (MySQLQueue_enqueue_to_validation_queue q image_id v m t r img gm)"
  using assms
  by (cases t) (auto simp: queue_invariant_def MySQLQueue_enqueue_to_validation_queue_def
      sorted_wrt_append)

lemma queue_invariant_enqueue_to_processing_queue:
  "queue_invariant q \<Longrightarrow> queue_invariant (snd (enqueue_to_processing_queue q image_id m t r img gm))"
  by (simp add: enqueue_to_processing_queue_def queue_invariant_MySQLQueue_enqueue_to_processing_queue)

lemma queue_invariant_enqueue_to_validation_queue:
  "queue_invariant q \<Longrightarrow> queue_invariant (snd (enqueue_to_validation_queue q image_id v m t r img gm))"
  by (simp add: enqueue_to_validation_queue_def queue_invariant_MySQLQueue_enqueue_to_validation_queue)

lemma snd_dequeue_from_processing_queue:
  "snd (dequeue_from_processing_queue q) =
     (case order_by_id_limit_1 (PROCESSING_QUEUE q) of None \<Rightarrow> q
      | Some row \<Rightarrow> q\<lparr>PROCESSING_QUEUE := delete_where_id (ID row) (PROCESSING_QUEUE q)\<rparr>)"
  by (simp add: dequeue_from_processing_queue_def Let_def split: option.splits sum.splits prod.splits)

lemma snd_dequeue_from_validation_queue:
  "snd (dequeue_from_validation_queue q) =
     (case order_by_id_limit_1 (VALIDATION_QUEUE q) of None \<Rightarrow> q
      | Some row \<Rightarrow> q\<lparr>BUFFER := BUFFER q @ map buffer_row_of (where_id (ID row) (VALIDATION_QUEUE q)),
                      VALIDATION_QUEUE := delete_where_id (ID row) (VALIDATION_QUEUE q)\<rparr>)"
  by (simp add: dequeue_from_validation_queue_def Let_def split: option.splits sum.splits prod.splits)

lemma queue_invariant_dequeue_from_processing_queue:
  assumes "queue_invariant q"
  shows "queue_invariant (snd (dequeue_from_processing_queue q))"
  using assms
  by (auto simp: snd_dequeue_from_processing_queue queue_invariant_def delete_where_id_def
      sorted_wrt_filter_ID split: option.splits)

lemma queue_invariant_dequeue_from_validation_queue:
  assumes "queue_invariant q"
  shows "queue_invariant (snd (dequeue_from_validation_queue q))"
proof (cases "order_by_id_limit_1 (VALIDATION_QUEUE q)")
  case None
  with assms show ?thesis by (simp add: snd_dequeue_from_validation_queue)
next
  case (Some row)
  from order_by_id_limit_1_Some [OF Some] have mem: "row \<in> set (VALIDATION_QUEUE q)" by simp
  from assms have "sorted_wrt (<) (map ID (VALIDATION_QUEUE q))"
    by (simp add: queue_invariant_def)
  then have d: "distinct (map ID (VALIDATION_QUEUE q))"
    by (simp add: strict_sorted_iff)
  have w: "where_id (ID row) (VALIDATION_QUEUE q) = [row]"
    by (rule where_id_distinct [OF d mem])
  have s: "snd (dequeue_from_validation_queue q) =
      q\<lparr>BUFFER := BUFFER q @ [buffer_row_of row],
        VALIDATION_QUEUE := delete_where_id (ID row) (VALIDATION_QUEUE q)\<rparr>"
    by (simp add: snd_dequeue_from_validation_queue Some w)
  show ?thesis
    unfolding s using assms mem
    by (auto simp: queue_invariant_def delete_where_id_def sorted_wrt_filter_ID buffer_row_of_def)
       metis
qed

lemma queue_invariant_update_buffer:
  assumes "queue_invariant q"
  shows "queue_invariant (update_buffer q i p)"
proof (cases "i \<in> ID ` set (BUFFER q)")
  case False
  with assms show ?thesis by (simp add: update_buffer_absent)
next
  case True
  then obtain b where b: "b \<in> set (BUFFER q)" and i: "i = ID b" by auto
  from assms have d: "distinct (map ID (BUFFER q))" by (simp add: queue_invariant_def)
  show ?thesis
  proof (cases p)
    case True
    have "queue_invariant (update_buffer q (ID b) True)"
      unfolding update_buffer_present(1) [OF d b]
      using assms b
      by (auto simp: queue_invariant_def delete_where_id_def sorted_wrt_append distinct_filter_ID)
    with i True show ?thesis by simp
  next
    case False
    have "queue_invariant (update_buffer q (ID b) False)"
      unfolding update_buffer_present(2) [OF d b]
      using assms b
      by (auto simp: queue_invariant_def delete_where_id_def distinct_filter_ID)
    with i False show ?thesis by simp
  qed
qed

text \<open>
  The invariant gives what the theorems on \<open>update_buffer\<close> and on
  \<open>dequeue_from_processing_queue\<close> below assume of the tables.
\<close>

lemma queue_invariant_buffer_keyed:
  "queue_invariant q \<Longrightarrow> distinct (map ID (BUFFER q))"
  by (simp add: queue_invariant_def)

lemma queue_invariant_processing_queue_ordered:
  "queue_invariant q \<Longrightarrow>
     sorted_wrt (<) (map ID (PROCESSING_QUEUE q))
     \<and> (\<forall>x\<in>set (PROCESSING_QUEUE q).
           CLASSIFICATION_REPORT_ID x = None \<or> SEGMENTATION_REPORT_ID x = None)"
  by (simp add: queue_invariant_def)

subsection \<open>Enqueueing\<close>

text \<open>
  Claim C8. A call of \<open>enqueue_to_processing_queue\<close> with model type \<open>SEGMENTATION\<close>
  and no \<open>generate_mask\<close>, and a call of \<open>enqueue_to_validation_queue\<close> with processing
  model type \<open>SEGMENTATION\<close> and no \<open>generate_mask\<close>, raise the \<open>ValueError\<close>
  "generate_mask must be provided for segmentation models" and leave every table as it
  was.
\<close>

theorem enqueue_segmentation_without_generate_mask_raises:
  "enqueue_to_processing_queue q image_id m SEGMENTATION r img None
     = (Inl (ValueError ''generate_mask must be provided for segmentation models''), q)
   \<and> enqueue_to_validation_queue q image_id v m SEGMENTATION r img None
     = (Inl (ValueError ''generate_mask must be provided for segmentation models''), q)"
  by (simp add: enqueue_to_processing_queue_def enqueue_to_validation_queue_def)

text \<open>
  Claim C1 asks that \<open>enqueue_to_processing_queue\<close> appends one row to the processing
  queue and changes no other table. The code does otherwise: on empty tables the call
  with image id 7, model id 2, type \<open>CLASSIFICATION\<close>, report id 3 and image bytes
  \<open>[1, 2]\<close> returns normally with the row in \<open>VALIDATION_QUEUE\<close> and
  \<open>PROCESSING_QUEUE\<close> still empty, and for no arguments at all does the call change
  \<open>PROCESSING_QUEUE\<close>.
\<close>

theorem enqueue_to_processing_queue_writes_validation_queue:
  "enqueue_to_processing_queue
      \<lparr>VALIDATION_QUEUE = [], VALIDATION_QUEUE_AUTO_INCREMENT = 1,
       PROCESSING_QUEUE = [], PROCESSING_QUEUE_AUTO_INCREMENT = 1, BUFFER = []\<rparr>
      7 2 CLASSIFICATION 3 [1, 2] None
   = (Inr (),
      \<lparr>VALIDATION_QUEUE =
         [\<lparr>ID = 1, IMAGE_ID = 7, MODEL_ID = 2, CLASSIFICATION_REPORT_ID = Some 3,
           SEGMENTATION_REPORT_ID = None, IMAGE = [1, 2], GENERATE_MASK = None,
           VALIDATION_MODEL_ID = None\<rparr>],
       VALIDATION_QUEUE_AUTO_INCREMENT = 2,
       PROCESSING_QUEUE = [], PROCESSING_QUEUE_AUTO_INCREMENT = 1, BUFFER = []\<rparr>)
   \<and> PROCESSING_QUEUE (snd (enqueue_to_processing_queue q image_id m t r img gm))
       = PROCESSING_QUEUE q"
  by (simp add: enqueue_to_processing_queue_def MySQLQueue_enqueue_to_processing_queue_def
      split: ProcessingModelType.splits)

subsection \<open>Dequeueing from the validation queue\<close>

text \<open>
  Claim C2. If the validation queue is empty, \<open>dequeue_from_validation_queue\<close> returns
  \<open>None\<close> and changes nothing. If it returns an element, the job of that id was in the
  validation queue before the call, and after the call it is in the buffer and not in
  the validation queue: the rows of that id, and only they, were copied to the end of
  the buffer and deleted from the validation queue, and the processing queue is
  untouched.
\<close>

theorem dequeue_from_validation_queue_exactly_one_store:
  "(VALIDATION_QUEUE q = [] \<longrightarrow> dequeue_from_validation_queue q = (Inr None, q))
   \<and> (dequeue_from_validation_queue q = (Inr (Some e), q') \<longrightarrow>
        id' e \<in> ID ` set (VALIDATION_QUEUE q)
        \<and> id' e \<notin> ID ` set (VALIDATION_QUEUE q')
        \<and> id' e \<in> ID ` set (BUFFER q')
        \<and> VALIDATION_QUEUE q' = delete_where_id (id' e) (VALIDATION_QUEUE q)
        \<and> BUFFER q' = BUFFER q @ map buffer_row_of (where_id (id' e) (VALIDATION_QUEUE q))
        \<and> PROCESSING_QUEUE q' = PROCESSING_QUEUE q)"
proof (intro conjI impI)
  assume "VALIDATION_QUEUE q = []"
  then show "dequeue_from_validation_queue q = (Inr None, q)"
    by (rule dequeue_validation_empty)
next
  assume d: "dequeue_from_validation_queue q = (Inr (Some e), q')"
  then obtain row where row: "order_by_id_limit_1 (VALIDATION_QUEUE q) = Some row"
    and e: "id' e = ID row"
    and q': "q' = q\<lparr>BUFFER := BUFFER q @ map buffer_row_of (where_id (ID row) (VALIDATION_QUEUE q)),
                VALIDATION_QUEUE := delete_where_id (ID row) (VALIDATION_QUEUE q)\<rparr>"
    by (rule dequeue_validation_Some)
  from order_by_id_limit_1_Some [OF row] have mem: "row \<in> set (VALIDATION_QUEUE q)" by simp
  then show "id' e \<in> ID ` set (VALIDATION_QUEUE q)" using e by simp
  show "id' e \<notin> ID ` set (VALIDATION_QUEUE q')"
    using e q' by (simp add: delete_where_id_gone)
  have "buffer_row_of row \<in> set (BUFFER q')"
    using mem q' by (simp add: where_id_def)
  moreover have "ID (buffer_row_of row) = ID row" by (simp add: buffer_row_of_def)
  ultimately show "id' e \<in> ID ` set (BUFFER q')" using e by (metis imageI)
  show "VALIDATION_QUEUE q' = delete_where_id (id' e) (VALIDATION_QUEUE q)"
    using e q' by simp
  show "BUFFER q' = BUFFER q @ map buffer_row_of (where_id (id' e) (VALIDATION_QUEUE q))"
    using e q' by simp
  show "PROCESSING_QUEUE q' = PROCESSING_QUEUE q" using q' by simp
qed

theorem dequeue_from_validation_queue_exactly_one_store_witness:
  "dequeue_from_validation_queue
      \<lparr>VALIDATION_QUEUE =
          [\<lparr>ID = 5, IMAGE_ID = 7, MODEL_ID = 2, CLASSIFICATION_REPORT_ID = None,
            SEGMENTATION_REPORT_ID = Some 3, IMAGE = [1, 2], GENERATE_MASK = Some True,
            VALIDATION_MODEL_ID = Some 9\<rparr>],
        VALIDATION_QUEUE_AUTO_INCREMENT = 6,
        PROCESSING_QUEUE = [], PROCESSING_QUEUE_AUTO_INCREMENT = 1, BUFFER = []\<rparr>
   = (Inr (Some \<lparr>id' = 5, model_id = Some 9, report_id = Some 3, report_type = SEGMENTATION,
          image' = [1, 2], generate_mask = Some False\<rparr>),
      \<lparr>VALIDATION_QUEUE = [],
        VALIDATION_QUEUE_AUTO_INCREMENT = 6,
        PROCESSING_QUEUE = [], PROCESSING_QUEUE_AUTO_INCREMENT = 1,
        BUFFER =
          [\<lparr>ID = 5, IMAGE_ID = 7, MODEL_ID = 2, CLASSIFICATION_REPORT_ID = None,
            SEGMENTATION_REPORT_ID = Some 3, IMAGE = [1, 2], GENERATE_MASK = Some True\<rparr>]\<rparr>)
   \<and> (5::int) \<notin> ID ` set (VALIDATION_QUEUE
      \<lparr>VALIDATION_QUEUE = [],
        VALIDATION_QUEUE_AUTO_INCREMENT = 6,
        PROCESSING_QUEUE = [], PROCESSING_QUEUE_AUTO_INCREMENT = 1,
        BUFFER =
          [\<lparr>ID = 5, IMAGE_ID = 7, MODEL_ID = 2, CLASSIFICATION_REPORT_ID = None,
            SEGMENTATION_REPORT_ID = Some 3, IMAGE = [1, 2], GENERATE_MASK = Some True\<rparr>]\<rparr>)
   \<and> (5::int) \<in> ID ` set (BUFFER
      \<lparr>VALIDATION_QUEUE = [],
        VALIDATION_QUEUE_AUTO_INCREMENT = 6,
        PROCESSING_QUEUE = [], PROCESSING_QUEUE_AUTO_INCREMENT = 1,
        BUFFER =
          [\<lparr>ID = 5, IMAGE_ID = 7, MODEL_ID = 2, CLASSIFICATION_REPORT_ID = None,
            SEGMENTATION_REPORT_ID = Some 3, IMAGE = [1, 2], GENERATE_MASK = Some True\<rparr>]\<rparr>)"
proof -
  have d: "dequeue_from_validation_queue
      \<lparr>VALIDATION_QUEUE =
          [\<lparr>ID = 5, IMAGE_ID = 7, MODEL_ID = 2, CLASSIFICATION_REPORT_ID = None,
            SEGMENTATION_REPORT_ID = Some 3, IMAGE = [1, 2], GENERATE_MASK = Some True,
            VALIDATION_MODEL_ID = Some 9\<rparr>],
        VALIDATION_QUEUE_AUTO_INCREMENT = 6,
        PROCESSING_QUEUE = [], PROCESSING_QUEUE_AUTO_INCREMENT = 1, BUFFER = []\<rparr>
   = (Inr (Some \<lparr>id' = 5, model_id = Some 9, report_id = Some 3, report_type = SEGMENTATION,
          image' = [1, 2], generate_mask = Some False\<rparr>),
      \<lparr>VALIDATION_QUEUE = [],
        VALIDATION_QUEUE_AUTO_INCREMENT = 6,
        PROCESSING_QUEUE = [], PROCESSING_QUEUE_AUTO_INCREMENT = 1,
        BUFFER =
          [\<lparr>ID = 5, IMAGE_ID = 7, MODEL_ID = 2, CLASSIFICATION_REPORT_ID = None,
            SEGMENTATION_REPORT_ID = Some 3, IMAGE = [1, 2], GENERATE_MASK = Some True\<rparr>]\<rparr>)"
    by (simp add: dequeue_from_validation_queue_def where_id_def delete_where_id_def
        buffer_row_of_def process_report_id_def)
  from d dequeue_from_validation_queue_exactly_one_store [of
      "\<lparr>VALIDATION_QUEUE =
          [\<lparr>ID = 5, IMAGE_ID = 7, MODEL_ID = 2, CLASSIFICATION_REPORT_ID = None,
            SEGMENTATION_REPORT_ID = Some 3, IMAGE = [1, 2], GENERATE_MASK = Some True,
            VALIDATION_MODEL_ID = Some 9\<rparr>],
        VALIDATION_QUEUE_AUTO_INCREMENT = 6,
        PROCESSING_QUEUE = [], PROCESSING_QUEUE_AUTO_INCREMENT = 1, BUFFER = []\<rparr>"
      "\<lparr>id' = 5, model_id = Some 9, report_id = Some 3, report_type = SEGMENTATION,
          image' = [1, 2], generate_mask = Some False\<rparr>"
      "\<lparr>VALIDATION_QUEUE = [],
        VALIDATION_QUEUE_AUTO_INCREMENT = 6,
        PROCESSING_QUEUE = [], PROCESSING_QUEUE_AUTO_INCREMENT = 1,
        BUFFER =
          [\<lparr>ID = 5, IMAGE_ID = 7, MODEL_ID = 2, CLASSIFICATION_REPORT_ID = None,
            SEGMENTATION_REPORT_ID = Some 3, IMAGE = [1, 2], GENERATE_MASK = Some True\<rparr>]\<rparr>"]
  show ?thesis by (simp add: where_id_def delete_where_id_def buffer_row_of_def)
qed

text \<open>
  Claim C10. The element that \<open>dequeue_from_validation_queue\<close> returns has the id of a
  row of the validation queue, that row's \<open>VALIDATION_MODEL_ID\<close> as its \<open>model_id\<close>,
  and \<open>generate_mask = False\<close> whatever the row's flag is; the row's \<open>MODEL_ID\<close> (the
  processing model) and its \<open>GENERATE_MASK\<close> are in the buffer row of the same id.
\<close>

theorem dequeue_from_validation_queue_element_fields:
  "dequeue_from_validation_queue q = (Inr (Some e), q') \<longrightarrow>
     (\<exists>row \<in> set (VALIDATION_QUEUE q).
        id' e = ID row
        \<and> model_id e = VALIDATION_MODEL_ID row
        \<and> generate_mask e = Some False
        \<and> (\<exists>b \<in> set (BUFFER q').
              ID b = ID row \<and> MODEL_ID b = MODEL_ID row \<and> GENERATE_MASK b = GENERATE_MASK row))"
proof
  assume d: "dequeue_from_validation_queue q = (Inr (Some e), q')"
  then obtain row where row: "order_by_id_limit_1 (VALIDATION_QUEUE q) = Some row"
    and e: "id' e = ID row" "model_id e = VALIDATION_MODEL_ID row" "generate_mask e = Some False"
    and q': "q' = q\<lparr>BUFFER := BUFFER q @ map buffer_row_of (where_id (ID row) (VALIDATION_QUEUE q)),
                VALIDATION_QUEUE := delete_where_id (ID row) (VALIDATION_QUEUE q)\<rparr>"
    by (rule dequeue_validation_Some)
  from order_by_id_limit_1_Some [OF row] have mem: "row \<in> set (VALIDATION_QUEUE q)" by simp
  have b: "buffer_row_of row \<in> set (BUFFER q')"
    using mem q' by (simp add: where_id_def)
  have "ID (buffer_row_of row) = ID row \<and> MODEL_ID (buffer_row_of row) = MODEL_ID row
        \<and> GENERATE_MASK (buffer_row_of row) = GENERATE_MASK row"
    by (simp add: buffer_row_of_def)
  with b have "\<exists>b \<in> set (BUFFER q').
              ID b = ID row \<and> MODEL_ID b = MODEL_ID row \<and> GENERATE_MASK b = GENERATE_MASK row"
    by blast
  with mem e show "\<exists>row \<in> set (VALIDATION_QUEUE q).
        id' e = ID row
        \<and> model_id e = VALIDATION_MODEL_ID row
        \<and> generate_mask e = Some False
        \<and> (\<exists>b \<in> set (BUFFER q').
              ID b = ID row \<and> MODEL_ID b = MODEL_ID row \<and> GENERATE_MASK b = GENERATE_MASK row)"
    by blast
qed

theorem dequeue_from_validation_queue_element_fields_witness:
  "dequeue_from_validation_queue
      \<lparr>VALIDATION_QUEUE =
          [\<lparr>ID = 5, IMAGE_ID = 7, MODEL_ID = 2, CLASSIFICATION_REPORT_ID = None,
            SEGMENTATION_REPORT_ID = Some 3, IMAGE = [1, 2], GENERATE_MASK = Some True,
            VALIDATION_MODEL_ID = Some 9\<rparr>],
        VALIDATION_QUEUE_AUTO_INCREMENT = 6,
        PROCESSING_QUEUE = [], PROCESSING_QUEUE_AUTO_INCREMENT = 1, BUFFER = []\<rparr>
   = (Inr (Some \<lparr>id' = 5, model_id = Some 9, report_id = Some 3, report_type = SEGMENTATION,
          image' = [1, 2], generate_mask = Some False\<rparr>),
      \<lparr>VALIDATION_QUEUE = [],
        VALIDATION_QUEUE_AUTO_INCREMENT = 6,
        PROCESSING_QUEUE = [], PROCESSING_QUEUE_AUTO_INCREMENT = 1,
        BUFFER =
          [\<lparr>ID = 5, IMAGE_ID = 7, MODEL_ID = 2, CLASSIFICATION_REPORT_ID = None,
            SEGMENTATION_REPORT_ID = Some 3, IMAGE = [1, 2], GENERATE_MASK = Some True\<rparr>]\<rparr>)
   \<and> (\<exists>row \<in> set (VALIDATION_QUEUE
      \<lparr>VALIDATION_QUEUE =
          [\<lparr>ID = 5, IMAGE_ID = 7, MODEL_ID = 2, CLASSIFICATION_REPORT_ID = None,
            SEGMENTATION_REPORT_ID = Some 3, IMAGE = [1, 2], GENERATE_MASK = Some True,
            VALIDATION_MODEL_ID = Some 9\<rparr>],
        VALIDATION_QUEUE_AUTO_INCREMENT = 6,
        PROCESSING_QUEUE = [], PROCESSING_QUEUE_AUTO_INCREMENT = 1, BUFFER = []\<rparr>).
        ID row = 5 \<and> VALIDATION_MODEL_ID row = Some 9
        \<and> (\<exists>b \<in> set (BUFFER
      \<lparr>VALIDATION_QUEUE = [],
        VALIDATION_QUEUE_AUTO_INCREMENT = 6,
        PROCESSING_QUEUE = [], PROCESSING_QUEUE_AUTO_INCREMENT = 1,
        BUFFER =
          [\<lparr>ID = 5, IMAGE_ID = 7, MODEL_ID = 2, CLASSIFICATION_REPORT_ID = None,
            SEGMENTATION_REPORT_ID = Some 3, IMAGE = [1, 2], GENERATE_MASK = Some True\<rparr>]\<rparr>).
              ID b = ID row \<and> MODEL_ID b = MODEL_ID row \<and> GENERATE_MASK b = GENERATE_MASK row))"
proof -
  have d: "dequeue_from_validation_queue
      \<lparr>VALIDATION_QUEUE =
          [\<lparr>ID = 5, IMAGE_ID = 7, MODEL_ID = 2, CLASSIFICATION_REPORT_ID = None,
            SEGMENTATION_REPORT_ID = Some 3, IMAGE = [1, 2], GENERATE_MASK = Some True,
            VALIDATION_MODEL_ID = Some 9\<rparr>],
        VALIDATION_QUEUE_AUTO_INCREMENT = 6,
        PROCESSING_QUEUE = [], PROCESSING_QUEUE_AUTO_INCREMENT = 1, BUFFER = []\<rparr>
   = (Inr (Some \<lparr>id' = 5, model_id = Some 9, report_id = Some 3, report_type = SEGMENTATION,
          image' = [1, 2], generate_mask = Some False\<rparr>),
      \<lparr>VALIDATION_QUEUE = [],
        VALIDATION_QUEUE_AUTO_INCREMENT = 6,
        PROCESSING_QUEUE = [], PROCESSING_QUEUE_AUTO_INCREMENT = 1,
        BUFFER =
          [\<lparr>ID = 5, IMAGE_ID = 7, MODEL_ID = 2, CLASSIFICATION_REPORT_ID = None,
            SEGMENTATION_REPORT_ID = Some 3, IMAGE = [1, 2], GENERATE_MASK = Some True\<rparr>]\<rparr>)"
    by (simp add: dequeue_from_validation_queue_def where_id_def delete_where_id_def
        buffer_row_of_def process_report_id_def)
  from d dequeue_from_validation_queue_element_fields [of
      "\<lparr>VALIDATION_QUEUE =
          [\<lparr>ID = 5, IMAGE_ID = 7, MODEL_ID = 2, CLASSIFICATION_REPORT_ID = None,
            SEGMENTATION_REPORT_ID = Some 3, IMAGE = [1, 2], GENERATE_MASK = Some True,
            VALIDATION_MODEL_ID = Some 9\<rparr>],
        VALIDATION_QUEUE_AUTO_INCREMENT = 6,
        PROCESSING_QUEUE = [], PROCESSING_QUEUE_AUTO_INCREMENT = 1, BUFFER = []\<rparr>"
      "\<lparr>id' = 5, model_id = Some 9, report_id = Some 3, report_type = SEGMENTATION,
          image' = [1, 2], generate_mask = Some False\<rparr>"
      "\<lparr>VALIDATION_QUEUE = [],
        VALIDATION_QUEUE_AUTO_INCREMENT = 6,
        PROCESSING_QUEUE = [], PROCESSING_QUEUE_AUTO_INCREMENT = 1,
        BUFFER =
          [\<lparr>ID = 5, IMAGE_ID = 7, MODEL_ID = 2, CLASSIFICATION_REPORT_ID = None,
            SEGMENTATION_REPORT_ID = Some 3, IMAGE = [1, 2], GENERATE_MASK = Some True\<rparr>]\<rparr>"]
  show ?thesis by (simp add: where_id_def delete_where_id_def buffer_row_of_def)
qed

subsection \<open>Applying a validation result\<close>

text \<open>
  Claim C3. Let the buffer hold one row per id, and let \<open>b\<close> be a row of it. Then
  \<open>update_buffer\<close> with \<open>b\<close>'s id and \<open>True\<close> appends exactly one row to the processing
  queue, with \<open>b\<close>'s image id, model id, report ids, image and mask flag and the
  queue's next id, and deletes \<open>b\<close> from the buffer; with \<open>False\<close> it only deletes \<open>b\<close>
  from the buffer and the processing queue stays as it was. In both results no buffer
  row has \<open>b\<close>'s id.
\<close>

theorem update_buffer_promotes_or_drops:
  assumes "distinct (map ID (BUFFER q))" and "b \<in> set (BUFFER q)"
  shows "update_buffer q (ID b) True =
           q\<lparr>PROCESSING_QUEUE := PROCESSING_QUEUE q @
                [\<lparr>ID = PROCESSING_QUEUE_AUTO_INCREMENT q,
                  IMAGE_ID = IMAGE_ID b,
                  MODEL_ID = MODEL_ID b,
                  CLASSIFICATION_REPORT_ID = CLASSIFICATION_REPORT_ID b,
                  SEGMENTATION_REPORT_ID = SEGMENTATION_REPORT_ID b,
                  IMAGE = IMAGE b,
                  GENERATE_MASK = GENERATE_MASK b\<rparr>],
              PROCESSING_QUEUE_AUTO_INCREMENT := PROCESSING_QUEUE_AUTO_INCREMENT q + 1,
              BUFFER := delete_where_id (ID b) (BUFFER q)\<rparr>
         \<and> update_buffer q (ID b) False = q\<lparr>BUFFER := delete_where_id (ID b) (BUFFER q)\<rparr>
         \<and> PROCESSING_QUEUE (update_buffer q (ID b) False) = PROCESSING_QUEUE q
         \<and> ID b \<notin> ID ` set (BUFFER (update_buffer q (ID b) True))
         \<and> ID b \<notin> ID ` set (BUFFER (update_buffer q (ID b) False))"
  using assms
  by (simp add: update_buffer_present delete_where_id_gone)

theorem update_buffer_promotes_or_drops_witness:
  "update_buffer
      \<lparr>VALIDATION_QUEUE = [],
        VALIDATION_QUEUE_AUTO_INCREMENT = 6,
        PROCESSING_QUEUE = [], PROCESSING_QUEUE_AUTO_INCREMENT = 1,
        BUFFER =
          [\<lparr>ID = 5, IMAGE_ID = 7, MODEL_ID = 2, CLASSIFICATION_REPORT_ID = None,
            SEGMENTATION_REPORT_ID = Some 3, IMAGE = [1, 2], GENERATE_MASK = Some True\<rparr>]\<rparr>
      5 True
   = \<lparr>VALIDATION_QUEUE = [], VALIDATION_QUEUE_AUTO_INCREMENT = 6,
      PROCESSING_QUEUE =
        [\<lparr>ID = 1, IMAGE_ID = 7, MODEL_ID = 2, CLASSIFICATION_REPORT_ID = None,
          SEGMENTATION_REPORT_ID = Some 3, IMAGE = [1, 2], GENERATE_MASK = Some True\<rparr>],
      PROCESSING_QUEUE_AUTO_INCREMENT = 2, BUFFER = []\<rparr>
   \<and> update_buffer
      \<lparr>VALIDATION_QUEUE = [],
        VALIDATION_QUEUE_AUTO_INCREMENT = 6,
        PROCESSING_QUEUE = [], PROCESSING_QUEUE_AUTO_INCREMENT = 1,
        BUFFER =
          [\<lparr>ID = 5, IMAGE_ID = 7, MODEL_ID = 2, CLASSIFICATION_REPORT_ID = None,
            SEGMENTATION_REPORT_ID = Some 3, IMAGE = [1, 2], GENERATE_MASK = Some True\<rparr>]\<rparr>
      5 False
   = \<lparr>VALIDATION_QUEUE = [], VALIDATION_QUEUE_AUTO_INCREMENT = 6,
      PROCESSING_QUEUE = [], PROCESSING_QUEUE_AUTO_INCREMENT = 1, BUFFER = []\<rparr>"
  using update_buffer_promotes_or_drops [of
      "\<lparr>VALIDATION_QUEUE = [],
        VALIDATION_QUEUE_AUTO_INCREMENT = 6,
        PROCESSING_QUEUE = [], PROCESSING_QUEUE_AUTO_INCREMENT = 1,
        BUFFER =
          [\<lparr>ID = 5, IMAGE_ID = 7, MODEL_ID = 2, CLASSIFICATION_REPORT_ID = None,
            SEGMENTATION_REPORT_ID = Some 3, IMAGE = [1, 2], GENERATE_MASK = Some True\<rparr>]\<rparr>"
      "\<lparr>ID = 5, IMAGE_ID = 7, MODEL_ID = 2, CLASSIFICATION_REPORT_ID = None,
            SEGMENTATION_REPORT_ID = Some 3, IMAGE = [1, 2], GENERATE_MASK = Some True\<rparr>"]
  by (simp add: delete_where_id_def)

text \<open>
  Claim C7. For an id that no buffer row has, \<open>update_buffer\<close> returns normally (the
  method has no way to raise) and leaves every table as it was, whatever the validation
  result is. So applying a validation result twice gives the same tables as applying it
  once, from every state.
\<close>

theorem update_buffer_idempotent:
  "(i \<notin> ID ` set (BUFFER q) \<longrightarrow> update_buffer q i p = q)
   \<and> update_buffer (update_buffer q i p) i p = update_buffer q i p"
  using update_buffer_absent update_buffer_removes by blast

theorem update_buffer_idempotent_witness:
  "(4::int) \<notin> ID ` set (BUFFER
      \<lparr>VALIDATION_QUEUE = [],
        VALIDATION_QUEUE_AUTO_INCREMENT = 6,
        PROCESSING_QUEUE = [], PROCESSING_QUEUE_AUTO_INCREMENT = 1,
        BUFFER =
          [\<lparr>ID = 5, IMAGE_ID = 7, MODEL_ID = 2, CLASSIFICATION_REPORT_ID = None,
            SEGMENTATION_REPORT_ID = Some 3, IMAGE = [1, 2], GENERATE_MASK = Some True\<rparr>]\<rparr>)
   \<and> update_buffer
      \<lparr>VALIDATION_QUEUE = [],
        VALIDATION_QUEUE_AUTO_INCREMENT = 6,
        PROCESSING_QUEUE = [], PROCESSING_QUEUE_AUTO_INCREMENT = 1,
        BUFFER =
          [\<lparr>ID = 5, IMAGE_ID = 7, MODEL_ID = 2, CLASSIFICATION_REPORT_ID = None,
            SEGMENTATION_REPORT_ID = Some 3, IMAGE = [1, 2], GENERATE_MASK = Some True\<rparr>]\<rparr>
      4 True
   = \<lparr>VALIDATION_QUEUE = [],
        VALIDATION_QUEUE_AUTO_INCREMENT = 6,
        PROCESSING_QUEUE = [], PROCESSING_QUEUE_AUTO_INCREMENT = 1,
        BUFFER =
          [\<lparr>ID = 5, IMAGE_ID = 7, MODEL_ID = 2, CLASSIFICATION_REPORT_ID = None,
            SEGMENTATION_REPORT_ID = Some 3, IMAGE = [1, 2], GENERATE_MASK = Some True\<rparr>]\<rparr>"
  using update_buffer_idempotent [of 4
      "\<lparr>VALIDATION_QUEUE = [],
        VALIDATION_QUEUE_AUTO_INCREMENT = 6,
        PROCESSING_QUEUE = [], PROCESSING_QUEUE_AUTO_INCREMENT = 1,
        BUFFER =
          [\<lparr>ID = 5, IMAGE_ID = 7, MODEL_ID = 2, CLASSIFICATION_REPORT_ID = None,
            SEGMENTATION_REPORT_ID = Some 3, IMAGE = [1, 2], GENERATE_MASK = Some True\<rparr>]\<rparr>"
      True]
  by simp

subsection \<open>Dequeueing from the processing queue\<close>

text \<open>
  Claim C5. Let the rows of the processing queue carry ids that grow with the insertion
  order, and at most one report id each (\<open>queue_invariant\<close>, which every operation
  keeps). On an empty queue \<open>dequeue_from_processing_queue\<close> returns \<open>None\<close> and changes
  nothing. On a queue \<open>r # rs\<close> it returns the element made from the oldest row \<open>r\<close>
  and leaves exactly \<open>rs\<close>. So \<open>n\<close> successive dequeues return the first \<open>n\<close> jobs in
  the order in which they were inserted, and leave the rest.
\<close>

theorem dequeue_from_processing_queue_fifo:
  assumes "sorted_wrt (<) (map ID (PROCESSING_QUEUE q))"
    and "\<forall>x\<in>set (PROCESSING_QUEUE q).
           CLASSIFICATION_REPORT_ID x = None \<or> SEGMENTATION_REPORT_ID x = None"
  shows "(PROCESSING_QUEUE q = [] \<longrightarrow> dequeue_from_processing_queue q = (Inr None, q))
     \<and> (PROCESSING_QUEUE q = r # rs \<longrightarrow>
          dequeue_from_processing_queue q =
            (Inr (Some \<lparr>id' = ID r, model_id = Some (MODEL_ID r),
                 report_id = (if SEGMENTATION_REPORT_ID r = None
                              then CLASSIFICATION_REPORT_ID r else SEGMENTATION_REPORT_ID r),
                 report_type = (if SEGMENTATION_REPORT_ID r = None
                                then CLASSIFICATION else SEGMENTATION),
                 image' = IMAGE r, generate_mask = GENERATE_MASK r\<rparr>),
             q\<lparr>PROCESSING_QUEUE := rs\<rparr>))
     \<and> map id' (fst (repeat_dequeue_from_processing_queue n q))
          = take n (map ID (PROCESSING_QUEUE q))
     \<and> map image' (fst (repeat_dequeue_from_processing_queue n q))
          = take n (map IMAGE (PROCESSING_QUEUE q))
     \<and> snd (repeat_dequeue_from_processing_queue n q)
          = q\<lparr>PROCESSING_QUEUE := drop n (PROCESSING_QUEUE q)\<rparr>"
proof (intro conjI impI)
  assume "PROCESSING_QUEUE q = []"
  then show "dequeue_from_processing_queue q = (Inr None, q)"
    by (rule dequeue_processing_empty)
next
  assume c: "PROCESSING_QUEUE q = r # rs"
  with assms(2) have "CLASSIFICATION_REPORT_ID r = None \<or> SEGMENTATION_REPORT_ID r = None"
    by simp
  from dequeue_processing_returns_head [OF assms(1) c this]
  show "dequeue_from_processing_queue q =
            (Inr (Some \<lparr>id' = ID r, model_id = Some (MODEL_ID r),
                 report_id = (if SEGMENTATION_REPORT_ID r = None
                              then CLASSIFICATION_REPORT_ID r else SEGMENTATION_REPORT_ID r),
                 report_type = (if SEGMENTATION_REPORT_ID r = None
                                then CLASSIFICATION else SEGMENTATION),
                 image' = IMAGE r, generate_mask = GENERATE_MASK r\<rparr>),
             q\<lparr>PROCESSING_QUEUE := rs\<rparr>)" .
next
  note f = repeat_dequeue_fifo [OF assms, of n]
  from f show "map id' (fst (repeat_dequeue_from_processing_queue n q))
          = take n (map ID (PROCESSING_QUEUE q))" by simp
  from f show "map image' (fst (repeat_dequeue_from_processing_queue n q))
          = take n (map IMAGE (PROCESSING_QUEUE q))" by simp
  from f show "snd (repeat_dequeue_from_processing_queue n q)
          = q\<lparr>PROCESSING_QUEUE := drop n (PROCESSING_QUEUE q)\<rparr>" by simp
qed

theorem dequeue_from_processing_queue_fifo_witness:
  "dequeue_from_processing_queue
      \<lparr>VALIDATION_QUEUE = [], VALIDATION_QUEUE_AUTO_INCREMENT = 6,
        PROCESSING_QUEUE =
          [\<lparr>ID = 3, IMAGE_ID = 7, MODEL_ID = 2, CLASSIFICATION_REPORT_ID = Some 11,
            SEGMENTATION_REPORT_ID = None, IMAGE = [1, 2], GENERATE_MASK = None\<rparr>,
           \<lparr>ID = 5, IMAGE_ID = 8, MODEL_ID = 4, CLASSIFICATION_REPORT_ID = None,
            SEGMENTATION_REPORT_ID = Some 12, IMAGE = [3], GENERATE_MASK = Some True\<rparr>],
        PROCESSING_QUEUE_AUTO_INCREMENT = 6, BUFFER = []\<rparr>
   = (Inr (Some \<lparr>id' = 3, model_id = Some 2, report_id = Some 11,
                 report_type = CLASSIFICATION, image' = [1, 2], generate_mask = None\<rparr>),
      \<lparr>VALIDATION_QUEUE = [], VALIDATION_QUEUE_AUTO_INCREMENT = 6,
        PROCESSING_QUEUE =
          [\<lparr>ID = 5, IMAGE_ID = 8, MODEL_ID = 4, CLASSIFICATION_REPORT_ID = None,
            SEGMENTATION_REPORT_ID = Some 12, IMAGE = [3], GENERATE_MASK = Some True\<rparr>],
        PROCESSING_QUEUE_AUTO_INCREMENT = 6, BUFFER = []\<rparr>)
   \<and> map id' (fst (repeat_dequeue_from_processing_queue 2
      \<lparr>VALIDATION_QUEUE = [], VALIDATION_QUEUE_AUTO_INCREMENT = 6,
        PROCESSING_QUEUE =
          [\<lparr>ID = 3, IMAGE_ID = 7, MODEL_ID = 2, CLASSIFICATION_REPORT_ID = Some 11,
            SEGMENTATION_REPORT_ID = None, IMAGE = [1, 2], GENERATE_MASK = None\<rparr>,
           \<lparr>ID = 5, IMAGE_ID = 8, MODEL_ID = 4, CLASSIFICATION_REPORT_ID = None,
            SEGMENTATION_REPORT_ID = Some 12, IMAGE = [3], GENERATE_MASK = Some True\<rparr>],
        PROCESSING_QUEUE_AUTO_INCREMENT = 6, BUFFER = []\<rparr>)) = [3, 5]
   \<and> PROCESSING_QUEUE (snd (repeat_dequeue_from_processing_queue 2
      \<lparr>VALIDATION_QUEUE = [], VALIDATION_QUEUE_AUTO_INCREMENT = 6,
        PROCESSING_QUEUE =
          [\<lparr>ID = 3, IMAGE_ID = 7, MODEL_ID = 2, CLASSIFICATION_REPORT_ID = Some 11,
            SEGMENTATION_REPORT_ID = None, IMAGE = [1, 2], GENERATE_MASK = None\<rparr>,
           \<lparr>ID = 5, IMAGE_ID = 8, MODEL_ID = 4, CLASSIFICATION_REPORT_ID = None,
            SEGMENTATION_REPORT_ID = Some 12, IMAGE = [3], GENERATE_MASK = Some True\<rparr>],
        PROCESSING_QUEUE_AUTO_INCREMENT = 6, BUFFER = []\<rparr>)) = []"
  using dequeue_from_processing_queue_fifo [of
      "\<lparr>VALIDATION_QUEUE = [], VALIDATION_QUEUE_AUTO_INCREMENT = 6,
        PROCESSING_QUEUE =
          [\<lparr>ID = 3, IMAGE_ID = 7, MODEL_ID = 2, CLASSIFICATION_REPORT_ID = Some 11,
            SEGMENTATION_REPORT_ID = None, IMAGE = [1, 2], GENERATE_MASK = None\<rparr>,
           \<lparr>ID = 5, IMAGE_ID = 8, MODEL_ID = 4, CLASSIFICATION_REPORT_ID = None,
            SEGMENTATION_REPORT_ID = Some 12, IMAGE = [3], GENERATE_MASK = Some True\<rparr>],
        PROCESSING_QUEUE_AUTO_INCREMENT = 6, BUFFER = []\<rparr>"
      "\<lparr>ID = 3, IMAGE_ID = 7, MODEL_ID = 2, CLASSIFICATION_REPORT_ID = Some 11,
            SEGMENTATION_REPORT_ID = None, IMAGE = [1, 2], GENERATE_MASK = None\<rparr>"
      "[\<lparr>ID = 5, IMAGE_ID = 8, MODEL_ID = 4, CLASSIFICATION_REPORT_ID = None,
            SEGMENTATION_REPORT_ID = Some 12, IMAGE = [3], GENERATE_MASK = Some True\<rparr>]"
      2]
  by simp

subsection \<open>Ingestion\<close>

lemma enqueue_report_type_mismatch:
  assumes "enabled_models (database w) processing_model_id = Some model"
    and "type model \<noteq> ProcessingType processing_model_type"
  shows "snd (enqueue_report w user_id filename img processing_model_id processing_model_type
                generate_mask' validation_model_id) = w
         \<and> (\<exists>msg. fst (enqueue_report w user_id filename img processing_model_id
                          processing_model_type generate_mask' validation_model_id)
                    = Inl (ValueError msg))"
  using assms by (auto simp: enqueue_report_def)

lemma enqueue_report_classification_with_mask:
  assumes "enabled_models (database w) processing_model_id = Some model"
    and "type model = ProcessingType CLASSIFICATION"
  shows "enqueue_report w user_id filename img processing_model_id CLASSIFICATION True
           validation_model_id
         = (Inl (ValueError ''Classification models do not generate masks''),
            w\<lparr>database := snd (insert_image (database w) user_id filename),
              storage := store_image (storage w) img (database_IMAGE_AUTO_INCREMENT (database w))\<rparr>)"
  using assms by (simp add: enqueue_report_def insert_image_def)

text \<open>
  Claim C6 asks that a call of \<open>enqueue_report\<close> that violates a precondition raises
  with no row written. For a declared type that differs from the registered one the
  code does so (\<open>enqueue_report_type_mismatch\<close>). For \<open>generate_mask = True\<close> with a
  \<open>CLASSIFICATION\<close> model it does not: with model 2 registered as a classification
  model and all tables empty, the call for user 10, file \<open>leaf.png\<close>, image bytes
  \<open>[1, 2]\<close>, model 2, type \<open>CLASSIFICATION\<close>, \<open>generate_mask = True\<close> and no validation
  model raises "Classification models do not generate masks" when the row of the image
  is already in the database's \<open>IMAGE\<close> table and its bytes are in the storage.
\<close>

theorem enqueue_report_mask_check_after_image_insert:
  "enqueue_report
      \<lparr>database =
          \<lparr>enabled_models =
             [2 \<mapsto> \<lparr>category = PROCESSING, type = ProcessingType CLASSIFICATION,
                     subtype = ''resnet'', module' = ''resnet50'', class_name = ''ResNet50''\<rparr>],
           database_IMAGE = [], database_IMAGE_AUTO_INCREMENT = 1,
           CLASSIFICATION_REPORT = [], CLASSIFICATION_REPORT_AUTO_INCREMENT = 1,
           SEGMENTATION_REPORT = [], SEGMENTATION_REPORT_AUTO_INCREMENT = 1\<rparr>,
        queue =
          \<lparr>VALIDATION_QUEUE = [], VALIDATION_QUEUE_AUTO_INCREMENT = 1,
           PROCESSING_QUEUE = [], PROCESSING_QUEUE_AUTO_INCREMENT = 1, BUFFER = []\<rparr>,
        storage = \<lparr>storage_IMAGE = []\<rparr>\<rparr>
      10 ''leaf.png'' [1, 2] 2 CLASSIFICATION True None
   = (Inl (ValueError ''Classification models do not generate masks''),
      \<lparr>database =
          \<lparr>enabled_models =
             [2 \<mapsto> \<lparr>category = PROCESSING, type = ProcessingType CLASSIFICATION,
                     subtype = ''resnet'', module' = ''resnet50'', class_name = ''ResNet50''\<rparr>],
           database_IMAGE = [(1, 10, ''leaf.png'')], database_IMAGE_AUTO_INCREMENT = 2,
           CLASSIFICATION_REPORT = [], CLASSIFICATION_REPORT_AUTO_INCREMENT = 1,
           SEGMENTATION_REPORT = [], SEGMENTATION_REPORT_AUTO_INCREMENT = 1\<rparr>,
        queue =
          \<lparr>VALIDATION_QUEUE = [], VALIDATION_QUEUE_AUTO_INCREMENT = 1,
           PROCESSING_QUEUE = [], PROCESSING_QUEUE_AUTO_INCREMENT = 1, BUFFER = []\<rparr>,
        storage = \<lparr>storage_IMAGE = [(1, [1, 2])]\<rparr>\<rparr>)"
  by (simp add: enqueue_report_def insert_image_def store_image_def)

end
